theory Spec2Isabelle
  imports Complex_Main "HOL-Library.AList"
begin

section \<open>JavaScript values\<close>

text \<open>
  Strings are lists of 8-bit code units. A number is the exact value of its
  decimal literal, or one of the three non-finite values; rounding to binary64
  is not modelled. A plain object is the list of its own enumerable properties
  in \<open>Object.entries\<close> order; properties inherited from \<open>Object.prototype\<close> are not
  modelled. A function is what calling it with no arguments does, together
  with the global constructor it is (if any) and whether its prototype is an
  instance of \<open>Module\<close>. A promise (or thenable) is its eventual state.
\<close>

datatype jsnum = NaN | PosInf | NegInf | Finite rat

datatype builtin = BNumber | BString | BBoolean | BArray | BObject | BDate | BFunction | BSymbol

datatype jsval =
    Undefined
  | Null
  | Bool bool
  | Num jsnum
  | Str string
  | Arr "jsval list"
  | Obj "(string \<times> jsval) list"
  | DateObj int
  | Fn "builtin option" bool call
  | Prom settle
  | VueInstance string jsval jsval
and call = Returns jsval | Throws jsval
and settle = Fulfilled jsval | Rejected jsval | Pending

datatype error = TypeError string | Unmodelled string | Thrown jsval

text \<open>The platform functions the helpers call: \<open>parseFloat\<close>, \<open>JSON.parse\<close>
  (\<open>None\<close> when it throws) and the time value of \<open>new Date(string)\<close> (\<open>None\<close>
  for an invalid date, whose time value is \<open>NaN\<close>).\<close>

record platform =
  parseFloat :: "string \<Rightarrow> jsnum"
  JSON_parse :: "string \<Rightarrow> jsval option"
  Date_of_string :: "string \<Rightarrow> int option"

section \<open>Regular expressions\<close>

text \<open>
  The backtracking matcher of the regular expressions used by the helpers. A
  matcher state is the position in the input, the rest of the input and the
  captures so far; \<open>rx_step\<close> lists the states after a match of the expression
  in the order in which backtracking tries them, so that the first state of
  the list is the match that JavaScript finds. An optional or repeated
  expression does not match the empty string in an iteration. No expression
  used here has a group inside a repetition, and captures are not reset
  between iterations.
\<close>

datatype rx =
    Lit char
  | Range char char
  | AnyChar
  | Seq rx rx
  | Alt rx rx
  | Opt rx
  | Star rx
  | Times nat rx
  | Group nat rx
  | Bol
  | Eol

type_synonym captures = "nat \<Rightarrow> string option"
type_synonym rx_state = "nat \<times> string \<times> captures"

primrec rx_times :: "nat \<Rightarrow> (rx_state \<Rightarrow> rx_state list) \<Rightarrow> rx_state \<Rightarrow> rx_state list" where
  "rx_times 0 f st = [st]"
| "rx_times (Suc n) f st = concat (map (rx_times n f) (f st))"

primrec rx_star :: "nat \<Rightarrow> (rx_state \<Rightarrow> rx_state list) \<Rightarrow> rx_state \<Rightarrow> rx_state list" where
  "rx_star 0 f st = [st]"
| "rx_star (Suc n) f st =
     concat (map (rx_star n f) (filter (\<lambda>st'. fst st' \<noteq> fst st) (f st))) @ [st]"

definition is_line_terminator :: "char \<Rightarrow> bool" where
  "is_line_terminator c \<longleftrightarrow> c = CHR 0x0A \<or> c = CHR 0x0D"

primrec rx_step :: "rx \<Rightarrow> rx_state \<Rightarrow> rx_state list" where
  "rx_step (Lit c) st =
     (case fst (snd st) of
        [] \<Rightarrow> []
      | x # xs \<Rightarrow> if x = c then [(Suc (fst st), xs, snd (snd st))] else [])"
| "rx_step (Range lo hi) st =
     (case fst (snd st) of
        [] \<Rightarrow> []
      | x # xs \<Rightarrow>
          if (of_char lo :: nat) \<le> of_char x \<and> (of_char x :: nat) \<le> of_char hi
          then [(Suc (fst st), xs, snd (snd st))] else [])"
| "rx_step AnyChar st =
     (case fst (snd st) of
        [] \<Rightarrow> []
      | x # xs \<Rightarrow> if is_line_terminator x then [] else [(Suc (fst st), xs, snd (snd st))])"
| "rx_step (Seq a b) st = concat (map (rx_step b) (rx_step a st))"
| "rx_step (Alt a b) st = rx_step a st @ rx_step b st"
| "rx_step (Opt a) st = filter (\<lambda>st'. fst st' \<noteq> fst st) (rx_step a st) @ [st]"
| "rx_step (Star a) st = rx_star (length (fst (snd st))) (rx_step a) st"
| "rx_step (Times n a) st = rx_times n (rx_step a) st"
| "rx_step (Group i a) st =
     map (\<lambda>st'. (fst st', fst (snd st'),
                 (snd (snd st'))(i \<mapsto> take (fst st' - fst st) (fst (snd st)))))
         (rx_step a st)"
| "rx_step Bol st = (if fst st = 0 then [st] else [])"
| "rx_step Eol st = (if fst (snd st) = [] then [st] else [])"

text \<open>\<open>rx_exec_from r s i n\<close> tries the start positions \<open>i, i + 1, ...\<close> (\<open>n\<close> of
  them) and returns the start and the final state of the first match.\<close>

primrec rx_exec_from :: "rx \<Rightarrow> string \<Rightarrow> nat \<Rightarrow> nat \<Rightarrow> (nat \<times> rx_state) option" where
  "rx_exec_from r s i 0 = None"
| "rx_exec_from r s i (Suc n) =
     (case rx_step r (i, drop i s, Map.empty) of
        [] \<Rightarrow> rx_exec_from r s (Suc i) n
      | st # _ \<Rightarrow> Some (i, st))"

definition rx_exec :: "rx \<Rightarrow> string \<Rightarrow> (nat \<times> rx_state) option" where
  "rx_exec r s = rx_exec_from r s 0 (Suc (length s))"

definition rx_test :: "rx \<Rightarrow> string \<Rightarrow> bool" where
  "rx_test r s \<longleftrightarrow> rx_exec r s \<noteq> None"

text \<open>\<open>String.prototype.replace\<close> with a regular expression without the global
  flag and the replacement \<open>''\<close>: the first match is cut out.\<close>

definition rx_replace_empty :: "rx \<Rightarrow> string \<Rightarrow> string" where
  "rx_replace_empty r s =
     (case rx_exec r s of
        None \<Rightarrow> s
      | Some (i, st) \<Rightarrow> take i s @ drop (fst st) s)"

definition seqs :: "rx list \<Rightarrow> rx" where
  "seqs rs = foldr Seq (butlast rs) (last rs)"

definition alts :: "rx list \<Rightarrow> rx" where
  "alts rs = foldr Alt (butlast rs) (last rs)"

definition digit :: rx where
  "digit = Range CHR ''0'' CHR ''9''"

section \<open>util.js: parseISODate\<close>

text \<open>The regular expression literal of \<open>parseISODate\<close>, group by group.\<close>

definition iso_year :: rx where
  "iso_year = Group 1 (seqs [Opt (Lit CHR ''-''),
                             Opt (Seq (Range CHR ''1'' CHR ''9'') (Star digit)),
                             Times 4 digit])"

definition iso_month :: rx where
  "iso_month = Group 2 (alts [Seq (Lit CHR ''1'') (Range CHR ''0'' CHR ''2''),
                              Seq (Lit CHR ''0'') (Range CHR ''1'' CHR ''9'')])"

definition iso_day :: rx where
  "iso_day = Group 3 (alts [Seq (Lit CHR ''3'') (Range CHR ''0'' CHR ''1''),
                            Seq (Lit CHR ''0'') (Range CHR ''1'' CHR ''9''),
                            Seq (Range CHR ''1'' CHR ''2'') digit])"

definition iso_timezone :: rx where
  "iso_timezone =
     Group 10 (Alt (Lit CHR ''Z'')
                   (Group 11 (seqs [Group 12 (Alt (Lit CHR ''+'') (Lit CHR ''-'')),
                                    Times 2 digit, Lit CHR '':'', Times 2 digit])))"

definition iso_time :: rx where
  "iso_time =
     Group 4 (seqs [Lit CHR ''T'',
                    Group 5 (Alt (Seq (Lit CHR ''2'') (Range CHR ''0'' CHR ''3''))
                                 (Seq (Range CHR ''0'' CHR ''1'') digit)),
                    Lit CHR '':'',
                    Group 6 (Seq (Range CHR ''0'' CHR ''5'') digit),
                    Opt (Group 7 (Seq (Lit CHR '':'')
                                      (Group 8 (Seq (Range CHR ''0'' CHR ''5'') digit)))),
                    Opt (Group 9 (Seq (Lit CHR ''.'') (Times 3 digit))),
                    Opt iso_timezone])"

definition iso_regex :: rx where
  "iso_regex = seqs [Bol, iso_year, Opt (Lit CHR ''-''), iso_month, Opt (Lit CHR ''-''),
                     iso_day, Opt iso_time, Eol]"

text \<open>\<open>matches[i] || d\<close>: an undefined or empty capture gives the default.\<close>

definition capture_or :: "captures \<Rightarrow> nat \<Rightarrow> string \<Rightarrow> string" where
  "capture_or m i d = (case m i of None \<Rightarrow> d | Some s \<Rightarrow> if s = [] then d else s)"

definition capture :: "captures \<Rightarrow> nat \<Rightarrow> string" where
  "capture m i = (case m i of None \<Rightarrow> ''undefined'' | Some s \<Rightarrow> s)"

definition fullDateString :: "captures \<Rightarrow> string" where
  "fullDateString m =
     capture m 1 @ ''-'' @ capture m 2 @ ''-'' @ capture m 3 @ ''T'' @
     capture_or m 5 ''00'' @ '':'' @ capture_or m 6 ''00'' @ '':'' @
     capture_or m 8 ''00'' @ capture_or m 9 ''.000'' @ capture_or m 10 ''Z''"

text \<open>\<open>isValidDate\<close> of a \<open>Date\<close> object with the given time value.\<close>

definition isValidDate :: "int option \<Rightarrow> bool" where
  "isValidDate date \<longleftrightarrow> date \<noteq> None"

definition parseISODate :: "platform \<Rightarrow> string \<Rightarrow> jsval" where
  "parseISODate P dateString =
     (if dateString \<noteq> [] \<and> rx_test iso_regex dateString then
        (case rx_exec iso_regex dateString of
           None \<Rightarrow> Null
         | Some (i, st) \<Rightarrow>
             (let date = Date_of_string P (fullDateString (snd (snd st)))
              in if isValidDate date then DateObj (the date) else Null))
      else Null)"

text \<open>The string that \<open>parseISODate\<close> hands to \<open>Date\<close>, when the input matches.\<close>

definition iso_normalize :: "string \<Rightarrow> string option" where
  "iso_normalize s = map_option (\<lambda>(i, st). fullDateString (snd (snd st))) (rx_exec iso_regex s)"

section \<open>Operators\<close>

definition is_string :: "jsval \<Rightarrow> bool" where
  "is_string v = (case v of Str _ \<Rightarrow> True | _ \<Rightarrow> False)"

definition is_function :: "jsval \<Rightarrow> bool" where
  "is_function v = (case v of Fn _ _ _ \<Rightarrow> True | _ \<Rightarrow> False)"

definition is_array :: "jsval \<Rightarrow> bool" where
  "is_array v = (case v of Arr _ \<Rightarrow> True | _ \<Rightarrow> False)"

text \<open>\<open>typeof v === 'object'\<close>.\<close>

definition is_object :: "jsval \<Rightarrow> bool" where
  "is_object v =
     (case v of Null \<Rightarrow> True | Arr _ \<Rightarrow> True | Obj _ \<Rightarrow> True | DateObj _ \<Rightarrow> True
              | Prom _ \<Rightarrow> True | VueInstance _ _ _ \<Rightarrow> True | _ \<Rightarrow> False)"

definition truthy :: "jsval \<Rightarrow> bool" where
  "truthy v =
     (case v of Undefined \<Rightarrow> False | Null \<Rightarrow> False | Bool b \<Rightarrow> b
              | Num n \<Rightarrow> n \<noteq> NaN \<and> n \<noteq> Finite 0
              | Str s \<Rightarrow> s \<noteq> [] | _ \<Rightarrow> True)"

text \<open>Property read \<open>v?.[key]\<close> of a value that is a plain object; other values
  of the model have no property of the names read here.\<close>

definition get_prop :: "jsval \<Rightarrow> string \<Rightarrow> jsval" where
  "get_prop v key =
     (case v of Obj kvs \<Rightarrow> (case map_of kvs key of None \<Rightarrow> Undefined | Some x \<Rightarrow> x)
              | _ \<Rightarrow> Undefined)"

text \<open>\<open>v instanceof C\<close> for a global constructor \<open>C\<close>: never true of a primitive.\<close>

definition has_instance :: "builtin \<Rightarrow> jsval \<Rightarrow> bool" where
  "has_instance b v =
     (case v of
        Arr _ \<Rightarrow> b = BArray \<or> b = BObject
      | Obj _ \<Rightarrow> b = BObject
      | DateObj _ \<Rightarrow> b = BDate \<or> b = BObject
      | Fn _ _ _ \<Rightarrow> b = BFunction \<or> b = BObject
      | Prom _ \<Rightarrow> b = BObject
      | VueInstance _ _ _ \<Rightarrow> b = BObject
      | _ \<Rightarrow> False)"

text \<open>\<open>v instanceof t\<close>: a \<open>TypeError\<close> when \<open>t\<close> is not callable; a function that
  is no global constructor has none of the values of the model as instance.\<close>

definition instanceof :: "jsval \<Rightarrow> jsval \<Rightarrow> error + bool" where
  "instanceof v t =
     (case t of
        Fn (Some b) _ _ \<Rightarrow> Inr (has_instance b v)
      | Fn None _ _ \<Rightarrow> Inr False
      | _ \<Rightarrow> Inl (TypeError ''Right-hand side of instanceof is not callable''))"

section \<open>util.js: convertString\<close>

text \<open>One pass of the loop body: the \<open>switch\<close> on the type, with \<open>output\<close> as the
  previous candidate left it. A function is the global \<open>Number\<close> when its
  constructor tag says so.\<close>

definition convert_case :: "platform \<Rightarrow> string \<Rightarrow> jsval \<Rightarrow> jsval \<Rightarrow> jsval" where
  "convert_case P str type output =
     (case type of
        Fn (Some BNumber) _ _ \<Rightarrow> Num (parseFloat P str)
      | Fn (Some BDate) _ _ \<Rightarrow> parseISODate P str
      | Fn (Some BBoolean) _ _ \<Rightarrow> (case JSON_parse P str of Some v \<Rightarrow> v | None \<Rightarrow> output)
      | Fn (Some BArray) _ _ \<Rightarrow> (case JSON_parse P str of Some v \<Rightarrow> v | None \<Rightarrow> output)
      | Fn (Some BObject) _ _ \<Rightarrow> (case JSON_parse P str of Some v \<Rightarrow> v | None \<Rightarrow> output)
      | _ \<Rightarrow> Str str)"

fun convert_loop :: "platform \<Rightarrow> string \<Rightarrow> jsval list \<Rightarrow> jsval \<Rightarrow> error + jsval" where
  "convert_loop P str [] output = Inr output"
| "convert_loop P str (type # types) output =
     (let output' = convert_case P str type output in
      case instanceof output' type of
        Inl e \<Rightarrow> Inl e
      | Inr True \<Rightarrow> Inr output'
      | Inr False \<Rightarrow> convert_loop P str types output')"

definition convertString :: "platform \<Rightarrow> jsval \<Rightarrow> jsval \<Rightarrow> error + jsval" where
  "convertString P str requestedTypes =
     (case (str, requestedTypes) of
        (Str s, Arr (t # ts)) \<Rightarrow> convert_loop P s (t # ts) Undefined
      | _ \<Rightarrow> Inr Null)"

section \<open>dom.js: parseVueProps\<close>

fun digits_of_nat :: "nat \<Rightarrow> string" where
  "digits_of_nat n =
     (if n < 10 then [char_of (48 + n)]
      else digits_of_nat (n div 10) @ [char_of (48 + n mod 10)])"

text \<open>\<open>Object.entries\<close>: own enumerable string-keyed properties; a \<open>TypeError\<close> on
  \<open>undefined\<close> and \<open>null\<close>.\<close>

definition Object_entries :: "jsval \<Rightarrow> error + (string \<times> jsval) list" where
  "Object_entries v =
     (case v of
        Undefined \<Rightarrow> Inl (TypeError ''Cannot convert undefined or null to object'')
      | Null \<Rightarrow> Inl (TypeError ''Cannot convert undefined or null to object'')
      | Obj kvs \<Rightarrow> Inr kvs
      | Arr xs \<Rightarrow> Inr (map (\<lambda>i. (digits_of_nat i, xs ! i)) [0..<length xs])
      | Str s \<Rightarrow> Inr (map (\<lambda>i. (digits_of_nat i, Str [s ! i])) [0..<length s])
      | _ \<Rightarrow> Inr [])"

definition requested_types :: "jsval \<Rightarrow> jsval" where
  "requested_types propDef =
     (if is_function propDef then Arr [propDef]
      else if is_array propDef \<and>
              is_function (case propDef of Arr (x # _) \<Rightarrow> x | _ \<Rightarrow> Undefined) then propDef
      else if is_object propDef \<and> truthy (get_prop propDef ''type'')
      then Arr [get_prop propDef ''type'']
      else Undefined)"

text \<open>The callback of \<open>map\<close>: \<open>None\<close> is the \<open>null\<close> that \<open>filter(Boolean)\<close> removes.\<close>

definition parse_prop :: "platform \<Rightarrow> jsval \<Rightarrow> string \<times> jsval \<Rightarrow> error + (string \<times> jsval) option" where
  "parse_prop P props entry =
     (case entry of (key, propDef) \<Rightarrow>
        if \<not> truthy (get_prop props key) then Inr None
        else (case convertString P (get_prop props key) (requested_types propDef) of
                Inl e \<Rightarrow> Inl e
              | Inr prop \<Rightarrow> Inr (Some (key, prop))))"

fun parse_props :: "platform \<Rightarrow> jsval \<Rightarrow> (string \<times> jsval) list \<Rightarrow> error + (string \<times> jsval) list" where
  "parse_props P props [] = Inr []"
| "parse_props P props (entry # entries) =
     (case parse_prop P props entry of
        Inl e \<Rightarrow> Inl e
      | Inr r \<Rightarrow>
          (case parse_props P props entries of
             Inl e \<Rightarrow> Inl e
           | Inr rs \<Rightarrow> Inr (case r of None \<Rightarrow> rs | Some kv \<Rightarrow> kv # rs)))"

text \<open>\<open>Object.fromEntries\<close>: a later entry overwrites an earlier one of its key.\<close>

definition Object_fromEntries :: "(string \<times> jsval) list \<Rightarrow> (string \<times> jsval) list" where
  "Object_fromEntries kvs = foldl (\<lambda>out kv. AList.update (fst kv) (snd kv) out) [] kvs"

definition parseVueProps :: "platform \<Rightarrow> jsval \<Rightarrow> jsval \<Rightarrow> error + jsval" where
  "parseVueProps P propDefs props =
     (case Object_entries propDefs of
        Inl e \<Rightarrow> Inl e
      | Inr entries \<Rightarrow>
          (case parse_props P props entries of
             Inl e \<Rightarrow> Inl e
           | Inr filteredProps \<Rightarrow> Inr (Obj (Object_fromEntries filteredProps))))"


section \<open>dom.js: getDataset\<close>

text \<open>
  \<open>new RegExp(pattern)\<close> for the patterns made of ordinary characters, \<open>.\<close>, \<open>^\<close>
  and \<open>$\<close>. Any other syntax character starts a construct (a quantifier, a
  group, a class, an escape, an alternative) that is outside the model: it is
  reported as \<open>Unmodelled\<close>, whether JavaScript compiles the pattern or throws
  a \<open>SyntaxError\<close>.
\<close>

definition is_syntax_char :: "char \<Rightarrow> bool" where
  "is_syntax_char c \<longleftrightarrow> c = CHR 0x5C \<or> c \<in> set ''^$.*+?()[]{}|''"

fun RegExp_compile :: "string \<Rightarrow> error + rx" where
  "RegExp_compile [] = Inr (Times 0 AnyChar)"
| "RegExp_compile (c # cs) =
     (case (if c = CHR ''.'' then Inr AnyChar
            else if c = CHR ''^'' then Inr Bol
            else if c = CHR ''$'' then Inr Eol
            else if is_syntax_char c then Inl (Unmodelled (c # cs))
            else Inr (Lit c)) of
        Inl e \<Rightarrow> Inl e
      | Inr a \<Rightarrow> (case RegExp_compile cs of Inl e \<Rightarrow> Inl e | Inr r \<Rightarrow> Inr (Seq a r)))"

text \<open>\<open>toLowerCase\<close> of one 8-bit code unit: the letters \<open>A\<close> to \<open>Z\<close> and the
  capital letters of Latin-1.\<close>

definition to_lower :: "char \<Rightarrow> char" where
  "to_lower c =
     (let n = (of_char c :: nat) in
      if (65 \<le> n \<and> n \<le> 90) \<or> (192 \<le> n \<and> n \<le> 222 \<and> n \<noteq> 215) then char_of (n + 32) else c)"

text \<open>\<open>key.charAt(0).toLowerCase() + key.substring(1)\<close>\<close>

definition lower_first :: "string \<Rightarrow> string" where
  "lower_first key = (case key of [] \<Rightarrow> [] | c # cs \<Rightarrow> to_lower c # cs)"

text \<open>The argument \<open>obj\<close>: an element (whose dataset is read), an object whose
  values are strings, or anything else.\<close>

datatype source = Element "(string \<times> string) list" | PlainObject "(string \<times> string) list" | NoObject

definition dataset_of :: "source \<Rightarrow> (string \<times> string) list" where
  "dataset_of obj = (case obj of Element d \<Rightarrow> d | PlainObject d \<Rightarrow> d | NoObject \<Rightarrow> [])"

text \<open>The first half of the \<open>forEach\<close> callback: the key after the prefix test,
  and whether it is valid. An absent or empty prefix is falsy.\<close>

definition strip_prefix :: "string option \<Rightarrow> string \<Rightarrow> error + (bool \<times> string)" where
  "strip_prefix prefix key =
     (case prefix of
        None \<Rightarrow> Inr (True, key)
      | Some p \<Rightarrow>
          if p = [] then Inr (True, key)
          else (case RegExp_compile (CHR ''^'' # p) of
                  Inl e \<Rightarrow> Inl e
                | Inr regex \<Rightarrow>
                    if rx_test regex key
                    then Inr (True, lower_first (rx_replace_empty regex key))
                    else Inr (False, key)))"

fun getDataset_loop ::
  "platform \<Rightarrow> string option \<Rightarrow> (string \<times> string) list \<Rightarrow> (string \<times> jsval) list
     \<Rightarrow> error + (string \<times> jsval) list" where
  "getDataset_loop P prefix [] output = Inr output"
| "getDataset_loop P prefix ((key, value) # entries) output =
     (case strip_prefix prefix key of
        Inl e \<Rightarrow> Inl e
      | Inr (valid, key') \<Rightarrow>
          getDataset_loop P prefix entries
            (if valid \<and> key' \<noteq> []
             then AList.update key'
                    (case JSON_parse P value of Some val \<Rightarrow> val | None \<Rightarrow> Str value) output
             else output))"

definition getDataset :: "platform \<Rightarrow> source \<Rightarrow> string option \<Rightarrow> error + (string \<times> jsval) list" where
  "getDataset P obj prefix = getDataset_loop P prefix (dataset_of obj) []"

section \<open>util.js: loadDynamicImport\<close>

text \<open>
  The state of the promise that an \<open>async\<close> function returns, together with
  what it wrote with \<open>console.error\<close> and how many times it invoked a function
  taken from the initiator.
\<close>

datatype outcome = Resolved jsval | Failed error | Unsettled

record run =
  settled :: outcome
  console_errors :: "error list"
  invocations :: nat

text \<open>\<open>await Promise.resolve(v)\<close>: the value, the thrown rejection reason, or
  no continuation at all. Returning \<open>v\<close> from an \<open>async\<close> function settles its
  promise in the same way.\<close>

fun await :: "jsval \<Rightarrow> outcome" and await_settle :: "settle \<Rightarrow> outcome" where
  "await (Prom s) = await_settle s"
| "await v = Resolved v"
| "await_settle (Fulfilled v) = await v"
| "await_settle (Rejected e) = Failed (Thrown e)"
| "await_settle Pending = Unsettled"

text \<open>\<open>typeof v === 'function' && !(v.prototype instanceof Module)\<close>\<close>

definition is_plain_function :: "jsval \<Rightarrow> bool" where
  "is_plain_function v = (case v of Fn _ is_module _ \<Rightarrow> \<not> is_module | _ \<Rightarrow> False)"

definition call0 :: "jsval \<Rightarrow> error + jsval" where
  "call0 f =
     (case f of
        Fn _ _ (Returns v) \<Rightarrow> Inr v
      | Fn _ _ (Throws e) \<Rightarrow> Inl (Thrown e)
      | _ \<Rightarrow> Inl (TypeError ''not a function''))"

text \<open>\<open>result && typeof result === 'object' && 'default' in result\<close>\<close>

definition has_default :: "jsval \<Rightarrow> bool" where
  "has_default r =
     (truthy r \<and> is_object r \<and> (case r of Obj kvs \<Rightarrow> map_of kvs ''default'' \<noteq> None | _ \<Rightarrow> False))"

text \<open>\<open>return result\<close>, after the \<open>try\<close> statement.\<close>

definition return_result :: "jsval \<Rightarrow> error list \<Rightarrow> nat \<Rightarrow> run" where
  "return_result result errs n = \<lparr>settled = await result, console_errors = errs, invocations = n\<rparr>"

text \<open>From the callback on; a throwing callback leaves \<open>result\<close> as it was.\<close>

definition apply_cb :: "(jsval \<Rightarrow> error + jsval) option \<Rightarrow> jsval \<Rightarrow> nat \<Rightarrow> run" where
  "apply_cb cb result n =
     (case cb of
        None \<Rightarrow> return_result result [] n
      | Some f \<Rightarrow>
          (case f result of
             Inl e \<Rightarrow> return_result result [e] n
           | Inr v \<Rightarrow> return_result v [] n))"

text \<open>The second \<open>await\<close>; when it throws, \<open>result\<close> still holds the promise.\<close>

definition second_await :: "(jsval \<Rightarrow> error + jsval) option \<Rightarrow> jsval \<Rightarrow> nat \<Rightarrow> run" where
  "second_await cb result n =
     (case await result of
        Unsettled \<Rightarrow> \<lparr>settled = Unsettled, console_errors = [], invocations = n\<rparr>
      | Failed e \<Rightarrow> return_result result [e] n
      | Resolved r \<Rightarrow> apply_cb cb r n)"

text \<open>The body of the \<open>try\<close> block after the first \<open>await\<close> has produced \<open>result\<close>.\<close>

definition after_first_await :: "(jsval \<Rightarrow> error + jsval) option \<Rightarrow> jsval \<Rightarrow> nat \<Rightarrow> run" where
  "after_first_await cb result n =
     (let result1 = (if has_default result then get_prop result ''default'' else result) in
      if is_plain_function result1 then
        (case call0 result1 of
           Inl e \<Rightarrow> return_result result1 [e] (Suc n)
         | Inr v \<Rightarrow> second_await cb v (Suc n))
      else second_await cb result1 n)"

definition try_block :: "(jsval \<Rightarrow> error + jsval) option \<Rightarrow> jsval \<Rightarrow> nat \<Rightarrow> run" where
  "try_block cb initiator n =
     (case await initiator of
        Unsettled \<Rightarrow> \<lparr>settled = Unsettled, console_errors = [], invocations = n\<rparr>
      | Failed e \<Rightarrow> return_result Undefined [e] n
      | Resolved result \<Rightarrow> after_first_await cb result n)"

definition loadDynamicImport :: "jsval \<Rightarrow> (jsval \<Rightarrow> error + jsval) option \<Rightarrow> run" where
  "loadDynamicImport initiator cb =
     (if is_plain_function initiator then
        (case call0 initiator of
           Inl e \<Rightarrow> \<lparr>settled = Failed e, console_errors = [], invocations = 1\<rparr>
         | Inr v \<Rightarrow> try_block cb v 1)
      else try_block cb initiator 0)"

section \<open>App.js: initVueComponent and initVueComponents\<close>

record element =
  el_id :: string
  dataset :: "(string \<times> string) list"

record app =
  dependencies_vueComponents :: "(string \<times> jsval) list"
  vueComponents :: "jsval list option"

text \<open>The callback given to \<open>loadDynamicImport\<close>. \<open>new Vue\<close> is the rendering
  collaborator: it yields an instance for the element, the component and the
  props.\<close>

definition mount_component :: "platform \<Rightarrow> string \<Rightarrow> jsval \<Rightarrow> jsval \<Rightarrow> error + jsval" where
  "mount_component P el props Component =
     (if Component = Undefined \<or> Component = Null
      then Inl (TypeError ''Cannot read properties of undefined or null'')
      else if truthy (get_prop Component ''props'') \<and> truthy props then
        (case parseVueProps P (get_prop Component ''props'') props of
           Inl e \<Rightarrow> Inl e
         | Inr props' \<Rightarrow> Inr (VueInstance el Component props'))
      else Inr (VueInstance el Component props))"

definition initVueComponent :: "platform \<Rightarrow> app \<Rightarrow> string \<Rightarrow> string \<Rightarrow> jsval \<Rightarrow> run" where
  "initVueComponent P this el vueComponent props =
     (case map_of (dependencies_vueComponents this) vueComponent of
        Some initiator \<Rightarrow> loadDynamicImport initiator (Some (mount_component P el props))
      | None \<Rightarrow> \<lparr>settled = Resolved Undefined, console_errors = [], invocations = 0\<rparr>)"

text \<open>\<open>const { vueComponent, ...props } = $el.dataset\<close>\<close>

definition vueComponent_of :: "element \<Rightarrow> string" where
  "vueComponent_of el =
     (case map_of (dataset el) ''vueComponent'' of None \<Rightarrow> ''undefined'' | Some name \<Rightarrow> name)"

definition rest_props :: "element \<Rightarrow> jsval" where
  "rest_props el =
     Obj (map (\<lambda>(k, v). (k, Str v)) (filter (\<lambda>(k, v). k \<noteq> ''vueComponent'') (dataset el)))"

definition branch :: "platform \<Rightarrow> app \<Rightarrow> element \<Rightarrow> run" where
  "branch P this el = initVueComponent P this (el_id el) (vueComponent_of el) (rest_props el)"

text \<open>\<open>Promise.all\<close>: rejected as soon as one promise is, pending while one is
  pending, fulfilled with the values otherwise.\<close>

fun Promise_all :: "outcome list \<Rightarrow> jsval list \<Rightarrow> outcome" where
  "Promise_all [] acc =  Resolved (Arr acc)"
| "Promise_all (Resolved v # os) acc = Promise_all os (acc @ [v])"
| "Promise_all (Failed e # os) acc = Failed e"
| "Promise_all (Unsettled # os) acc =
     (case Promise_all os acc of Failed e \<Rightarrow> Failed e | _ \<Rightarrow> Unsettled)"

text \<open>A scan: the elements that \<open>$map\<close> found in the container, or \<open>None\<close> when
  there is no container (\<open>$map\<close> returns \<open>null\<close>, which \<open>Promise.all\<close> rejects).
  The result is the application afterwards and the promise of the scan.\<close>

definition initVueComponents :: "platform \<Rightarrow> app \<Rightarrow> element list option \<Rightarrow> app \<times> run" where
  "initVueComponents P this container =
     (case container of
        None \<Rightarrow> (this, \<lparr>settled = Failed (TypeError ''null is not iterable''),
                        console_errors = [], invocations = 0\<rparr>)
      | Some els \<Rightarrow>
          (let runs = map (branch P this) els;
               errs = concat (map console_errors runs);
               n = sum_list (map invocations runs)
           in case Promise_all (map settled runs) [] of
                Resolved (Arr newComponents) \<Rightarrow>
                  (this\<lparr>vueComponents :=
                          Some ((case vueComponents this of None \<Rightarrow> [] | Some old \<Rightarrow> old)
                                @ newComponents)\<rparr>,
                   \<lparr>settled = Resolved Undefined, console_errors = errs, invocations = n\<rparr>)
              | other \<Rightarrow> (this, \<lparr>settled = other, console_errors = errs, invocations = n\<rparr>)))"

section \<open>util.js: loadJSFile and loadCssFile\<close>






section \<open>Notions used in the properties\<close>







text \<open>What the documentation of \<open>getDataset\<close> describes, for a prefix \<open>p\<close>: the
  entries whose key starts with \<open>p\<close> and goes on after it, with \<open>p\<close> removed
  from the key and the next character in lower case, and with the value
  decoded as JSON or, failing that, left as it is.\<close>

definition decode :: "platform \<Rightarrow> string \<Rightarrow> jsval" where
  "decode P v = (case JSON_parse P v of Some val \<Rightarrow> val | None \<Rightarrow> Str v)"

definition kept_entries :: "platform \<Rightarrow> string \<Rightarrow> (string \<times> string) list \<Rightarrow> (string \<times> jsval) list" where
  "kept_entries P p entries =
     map (\<lambda>(k, v). (lower_first (drop (length p) k), decode P v))
         (filter (\<lambda>(k, v). take (length p) k = p \<and> length p < length k) entries)"

text \<open>The regular expression of a pattern without syntax characters.\<close>

fun literal_rx :: "string \<Rightarrow> rx" where
  "literal_rx [] = Times 0 AnyChar"
| "literal_rx (c # cs) = Seq (Lit c) (literal_rx cs)"





section \<open>A reference platform\<close>

text \<open>
  The three platform functions as ECMAScript specifies them, on 8-bit
  strings, for evaluating the helpers on concrete inputs. The helpers
  themselves are stated for every platform.
\<close>

definition is_digit :: "char \<Rightarrow> bool" where
  "is_digit c \<longleftrightarrow> (48::nat) \<le> of_char c \<and> (of_char c :: nat) \<le> 57"

definition digit_val :: "char \<Rightarrow> nat" where
  "digit_val c = of_char c - 48"

definition nat_of_digits :: "string \<Rightarrow> nat" where
  "nat_of_digits ds = foldl (\<lambda>n c. 10 * n + digit_val c) 0 ds"

definition decimal_value :: "bool \<Rightarrow> string \<Rightarrow> string \<Rightarrow> bool \<Rightarrow> string \<Rightarrow> rat" where
  "decimal_value neg ip fp eneg ep =
     (let m = of_nat (nat_of_digits (ip @ fp)) / 10 ^ length fp;
          v = (if eneg then m / 10 ^ nat_of_digits ep else m * 10 ^ nat_of_digits ep)
      in if neg then - v else v)"

text \<open>An exponent part \<open>e\<close>, sign, digits at the head of the string: its sign,
  its digits and the rest; no exponent part leaves the string as it is.\<close>

definition exponent_part :: "string \<Rightarrow> bool \<times> string \<times> string" where
  "exponent_part s =
     (case s of
        e # r \<Rightarrow>
          if e = CHR ''e'' \<or> e = CHR ''E'' then
            (let (eneg, r') = (case r of
                                 c # r'' \<Rightarrow> if c = CHR ''-'' then (True, r'')
                                             else if c = CHR ''+'' then (False, r'')
                                             else (False, r)
                               | [] \<Rightarrow> (False, r));
                 ds = takeWhile is_digit r'
             in if ds = [] then (False, [], s) else (eneg, ds, dropWhile is_digit r'))
          else (False, [], s)
      | [] \<Rightarrow> (False, [], s))"

subsection \<open>parseFloat\<close>

definition is_str_whitespace :: "char \<Rightarrow> bool" where
  "is_str_whitespace c \<longleftrightarrow> of_char c \<in> {9, 10, 11, 12, 13, 32, 160 :: nat}"

definition ecma_parseFloat :: "string \<Rightarrow> jsnum" where
  "ecma_parseFloat str =
     (let s = dropWhile is_str_whitespace str;
          (neg, s1) = (case s of
                         c # r \<Rightarrow> if c = CHR ''-'' then (True, r)
                                  else if c = CHR ''+'' then (False, r) else (False, s)
                       | [] \<Rightarrow> (False, s))
      in if take 8 s1 = ''Infinity'' then (if neg then NegInf else PosInf)
         else
           (let ip = takeWhile is_digit s1;
                s2 = dropWhile is_digit s1;
                (fp, s3) = (case s2 of
                              c # r \<Rightarrow> if c = CHR ''.'' then (takeWhile is_digit r, dropWhile is_digit r)
                                       else ([], s2)
                            | [] \<Rightarrow> ([], s2))
            in if ip = [] \<and> fp = [] then NaN
               else (case exponent_part s3 of
                       (eneg, ep, _) \<Rightarrow> Finite (decimal_value neg ip fp eneg ep))))"

subsection \<open>JSON.parse\<close>

definition is_json_ws :: "char \<Rightarrow> bool" where
  "is_json_ws c \<longleftrightarrow> of_char c \<in> {9, 10, 13, 32 :: nat}"

definition minus_sign :: "string \<Rightarrow> bool \<times> string" where
  "minus_sign s = (case s of c # r \<Rightarrow> if c = CHR ''-'' then (True, r) else (False, s)
                           | [] \<Rightarrow> (False, s))"

text \<open>A fraction part \<open>.\<close>, digits at the head of the string: its digits and the
  rest; \<open>None\<close> when no digit follows the point.\<close>

definition json_fraction :: "string \<Rightarrow> (string \<times> string) option" where
  "json_fraction s =
     (case s of
        c # r \<Rightarrow> if c = CHR ''.'' then
                   (if takeWhile is_digit r = [] then None
                    else Some (takeWhile is_digit r, dropWhile is_digit r))
                 else Some ([], s)
      | [] \<Rightarrow> Some ([], s))"

definition json_number :: "string \<Rightarrow> (jsval \<times> string) option" where
  "json_number s =
     (case minus_sign s of (neg, s1) \<Rightarrow>
        (let ip = takeWhile is_digit s1 in
         if ip = [] \<or> (hd ip = CHR ''0'' \<and> length ip > 1) then None
         else
           (case json_fraction (dropWhile is_digit s1) of
              None \<Rightarrow> None
            | Some (fp, s3) \<Rightarrow>
                (case exponent_part s3 of
                   (eneg, ep, s4) \<Rightarrow> Some (Num (Finite (decimal_value neg ip fp eneg ep)), s4)))))"

definition hex_val :: "char \<Rightarrow> nat option" where
  "hex_val c =
     (let n = (of_char c :: nat) in
      if 48 \<le> n \<and> n \<le> 57 then Some (n - 48)
      else if 65 \<le> n \<and> n \<le> 70 then Some (n - 55)
      else if 97 \<le> n \<and> n \<le> 102 then Some (n - 87)
      else None)"

text \<open>The escape after a backslash: the character it denotes and the number
  of characters read. An escape \<open>\uXXXX\<close> above \<open>00FF\<close> denotes a code unit that
  the 8-bit strings do not have; such a text is not decoded.\<close>

definition json_escape :: "string \<Rightarrow> (char \<times> nat) option" where
  "json_escape r =
     (case r of
        [] \<Rightarrow> None
      | e # r' \<Rightarrow>
          if e = CHR 0x22 \<or> e = CHR 0x5C \<or> e = CHR ''/'' then Some (e, 1)
          else if e = CHR ''b'' then Some (CHR 0x08, 1)
          else if e = CHR ''f'' then Some (CHR 0x0C, 1)
          else if e = CHR ''n'' then Some (CHR 0x0A, 1)
          else if e = CHR ''r'' then Some (CHR 0x0D, 1)
          else if e = CHR ''t'' then Some (CHR 0x09, 1)
          else if e = CHR ''u'' then
            (case map hex_val (take 4 r') of
               [Some a, Some b, Some c, Some d] \<Rightarrow>
                 if a = 0 \<and> b = 0 then Some (char_of (16 * c + d), 5) else None
             | _ \<Rightarrow> None)
          else None)"

text \<open>The characters of a string literal after its opening quote.\<close>

fun json_chars :: "string \<Rightarrow> string \<Rightarrow> (string \<times> string) option" where
  "json_chars [] acc = None"
| "json_chars (c # r) acc =
     (if c = CHR 0x22 then Some (rev acc, r)
      else if (of_char c :: nat) < 32 then None
      else if c = CHR 0x5C then
        (case json_escape r of
           None \<Rightarrow> None
         | Some (x, k) \<Rightarrow> json_chars (drop k r) (x # acc))
      else json_chars r (c # acc))"

text \<open>Recursive descent, with the number of calls bounded by the fuel. A
  repeated key keeps its first position and takes the last value; keys that
  are array indices are not moved to the front.\<close>

datatype parsed = Parsed jsval string | SyntaxErr | OutOfFuel

fun json_value :: "nat \<Rightarrow> string \<Rightarrow> parsed"
  and json_elements :: "nat \<Rightarrow> string \<Rightarrow> jsval list \<Rightarrow> parsed"
  and json_members :: "nat \<Rightarrow> string \<Rightarrow> (string \<times> jsval) list \<Rightarrow> parsed"
where
  "json_value 0 s = OutOfFuel"
| "json_value (Suc n) s =
     (case dropWhile is_json_ws s of
        [] \<Rightarrow> SyntaxErr
      | c # r \<Rightarrow>
          if c = CHR ''{'' then
            (case dropWhile is_json_ws r of
               [] \<Rightarrow> SyntaxErr
             | d # r' \<Rightarrow> if d = CHR ''}'' then Parsed (Obj []) r' else json_members n (d # r') [])
          else if c = CHR ''['' then
            (case dropWhile is_json_ws r of
               [] \<Rightarrow> SyntaxErr
             | d # r' \<Rightarrow> if d = CHR '']'' then Parsed (Arr []) r' else json_elements n (d # r') [])
          else if c = CHR 0x22 then
            (case json_chars r [] of None \<Rightarrow> SyntaxErr | Some (str, r') \<Rightarrow> Parsed (Str str) r')
          else if take 4 (c # r) = ''true'' then Parsed (Bool True) (drop 4 (c # r))
          else if take 5 (c # r) = ''false'' then Parsed (Bool False) (drop 5 (c # r))
          else if take 4 (c # r) = ''null'' then Parsed Null (drop 4 (c # r))
          else (case json_number (c # r) of None \<Rightarrow> SyntaxErr | Some (v, r') \<Rightarrow> Parsed v r'))"
| "json_elements 0 s acc = OutOfFuel"
| "json_elements (Suc n) s acc =
     (case json_value n s of
        Parsed v r \<Rightarrow>
          (case dropWhile is_json_ws r of
             [] \<Rightarrow> SyntaxErr
           | c # r' \<Rightarrow>
               if c = CHR '','' then json_elements n r' (acc @ [v])
               else if c = CHR '']'' then Parsed (Arr (acc @ [v])) r'
               else SyntaxErr)
      | SyntaxErr \<Rightarrow> SyntaxErr
      | OutOfFuel \<Rightarrow> OutOfFuel)"
| "json_members 0 s acc = OutOfFuel"
| "json_members (Suc n) s acc =
     (case dropWhile is_json_ws s of
        [] \<Rightarrow> SyntaxErr
      | q # r0 \<Rightarrow>
          if q \<noteq> CHR 0x22 then SyntaxErr
          else
            (case json_chars r0 [] of
               None \<Rightarrow> SyntaxErr
             | Some (key, r1) \<Rightarrow>
                 (case dropWhile is_json_ws r1 of
                    [] \<Rightarrow> SyntaxErr
                  | c # r2 \<Rightarrow>
                      if c \<noteq> CHR '':'' then SyntaxErr
                      else
                        (case json_value n r2 of
                           Parsed v r3 \<Rightarrow>
                             (case dropWhile is_json_ws r3 of
                                [] \<Rightarrow> SyntaxErr
                              | e # r4 \<Rightarrow>
                                  if e = CHR '','' then json_members n r4 (AList.update key v acc)
                                  else if e = CHR ''}'' then Parsed (Obj (AList.update key v acc)) r4
                                  else SyntaxErr)
                         | SyntaxErr \<Rightarrow> SyntaxErr
                         | OutOfFuel \<Rightarrow> OutOfFuel))))"

definition ecma_JSON_parse :: "string \<Rightarrow> jsval option" where
  "ecma_JSON_parse text =
     (case json_value (2 * length text + 2) text of
        Parsed v r \<Rightarrow> if dropWhile is_json_ws r = [] then Some v else None
      | _ \<Rightarrow> None)"

subsection \<open>new Date(string)\<close>

text \<open>The date-time format \<open>YYYY-MM-DDTHH:mm:ss.sssZ\<close> of ECMAScript, the form that
  \<open>parseISODate\<close> builds, with a four-digit or a signed six-digit year and
  \<open>Z\<close> or an offset \<open>+HH:mm\<close>. What a string outside the format denotes is left to
  the implementation by ECMAScript; here it is an invalid date. A day beyond
  the length of its month is an invalid date too, as in SpiderMonkey and
  JavaScriptCore (V8 rolls it over into the next month).\<close>

definition fixed_digits :: "nat \<Rightarrow> string \<Rightarrow> (nat \<times> string) option" where
  "fixed_digits n s =
     (if length s \<ge> n \<and> list_all is_digit (take n s)
      then Some (nat_of_digits (take n s), drop n s) else None)"

definition expect :: "char \<Rightarrow> string \<Rightarrow> string option" where
  "expect c s = (case s of x # r \<Rightarrow> if x = c then Some r else None | [] \<Rightarrow> None)"

definition leap_year :: "int \<Rightarrow> bool" where
  "leap_year y \<longleftrightarrow> y mod 4 = 0 \<and> (y mod 100 \<noteq> 0 \<or> y mod 400 = 0)"

definition days_in_month :: "int \<Rightarrow> nat \<Rightarrow> nat" where
  "days_in_month y m =
     (if m = 2 then (if leap_year y then 29 else 28)
      else if m = 4 \<or> m = 6 \<or> m = 9 \<or> m = 11 then 30 else 31)"

text \<open>Days from 1970-01-01 to the given day of the proleptic Gregorian calendar.\<close>

definition days_from_civil :: "int \<Rightarrow> nat \<Rightarrow> nat \<Rightarrow> int" where
  "days_from_civil y m d =
     (let y' = (if m \<le> 2 then y - 1 else y);
          era = y' div 400;
          yoe = y' - era * 400;
          doy = (153 * (if m > 2 then int m - 3 else int m + 9) + 2) div 5 + int d - 1;
          doe = yoe * 365 + yoe div 4 - yoe div 100 + doy
      in era * 146097 + doe - 719468)"

definition iso_year_field :: "string \<Rightarrow> (int \<times> string) option" where
  "iso_year_field s =
     (case s of
        [] \<Rightarrow> None
      | c # r \<Rightarrow>
          if c = CHR ''+'' then map_option (\<lambda>(y, r'). (int y, r')) (fixed_digits 6 r)
          else if c = CHR ''-'' then
            (case fixed_digits 6 r of
               None \<Rightarrow> None
             | Some (y, r') \<Rightarrow> if y = 0 then None else Some (- int y, r'))
          else map_option (\<lambda>(y, r'). (int y, r')) (fixed_digits 4 s))"

definition iso_offset_field :: "string \<Rightarrow> int option" where
  "iso_offset_field s =
     (if s = ''Z'' then Some 0
      else
        (case s of
           [] \<Rightarrow> None
         | c # r \<Rightarrow>
             if c \<noteq> CHR ''+'' \<and> c \<noteq> CHR ''-'' then None
             else
               Option.bind (fixed_digits 2 r) (\<lambda>(h, r1).
               Option.bind (expect CHR '':'' r1) (\<lambda>r2.
               Option.bind (fixed_digits 2 r2) (\<lambda>(m, r3).
                 if r3 \<noteq> [] \<or> h > 23 \<or> m > 59 then None
                 else Some ((if c = CHR ''-'' then - 1 else 1) * (int h * 60 + int m) * 60000))))))"

definition ecma_Date_of_string :: "string \<Rightarrow> int option" where
  "ecma_Date_of_string s =
     Option.bind (iso_year_field s) (\<lambda>(y, r0).
     Option.bind (expect CHR ''-'' r0) (\<lambda>r1.
     Option.bind (fixed_digits 2 r1) (\<lambda>(mo, r2).
     Option.bind (expect CHR ''-'' r2) (\<lambda>r3.
     Option.bind (fixed_digits 2 r3) (\<lambda>(d, r4).
     Option.bind (expect CHR ''T'' r4) (\<lambda>r5.
     Option.bind (fixed_digits 2 r5) (\<lambda>(h, r6).
     Option.bind (expect CHR '':'' r6) (\<lambda>r7.
     Option.bind (fixed_digits 2 r7) (\<lambda>(mi, r8).
     Option.bind (expect CHR '':'' r8) (\<lambda>r9.
     Option.bind (fixed_digits 2 r9) (\<lambda>(sec, r10).
     Option.bind (expect CHR ''.'' r10) (\<lambda>r11.
     Option.bind (fixed_digits 3 r11) (\<lambda>(ms, r12).
     Option.bind (iso_offset_field r12) (\<lambda>off.
       if mo < 1 \<or> mo > 12 \<or> d < 1 \<or> d > days_in_month y mo \<or> h > 24 \<or> mi > 59 \<or> sec > 59
          \<or> (h = 24 \<and> (mi \<noteq> 0 \<or> sec \<noteq> 0 \<or> ms \<noteq> 0))
       then None
       else
         (let t = days_from_civil y mo d * 86400000 + int h * 3600000 + int mi * 60000
                  + int sec * 1000 + int ms - off
          in if \<bar>t\<bar> > 8640000000000000 then None else Some t)))))))))))))))"

definition ecma :: platform where
  "ecma = \<lparr>parseFloat = ecma_parseFloat, JSON_parse = ecma_JSON_parse,
           Date_of_string = ecma_Date_of_string\<rparr>"

text \<open>The global constructors as values. \<open>Date()\<close> called as a function returns
  the current time as a string, here a parameter.\<close>

definition Number_ctor :: jsval where
  "Number_ctor = Fn (Some BNumber) False (Returns (Num (Finite 0)))"

definition String_ctor :: jsval where
  "String_ctor = Fn (Some BString) False (Returns (Str []))"

definition Boolean_ctor :: jsval where
  "Boolean_ctor = Fn (Some BBoolean) False (Returns (Bool False))"

definition Array_ctor :: jsval where
  "Array_ctor = Fn (Some BArray) False (Returns (Arr []))"

definition Object_ctor :: jsval where
  "Object_ctor = Fn (Some BObject) False (Returns (Obj []))"

definition Date_ctor :: "string \<Rightarrow> jsval" where
  "Date_ctor now = Fn (Some BDate) False (Returns (Str now))"

section \<open>The reference JSON decoder never runs out of fuel\<close>

lemma length_dropWhile: "length (dropWhile P xs) \<le> length xs"
  by (induction xs) simp_all

lemma json_chars_progress: "json_chars s acc = Some (str, r) \<Longrightarrow> length r < length s"
proof (induction s acc rule: json_chars.induct)
  case (1 acc)
  then show ?case by simp
next
  case (2 c r' acc)
  show ?case
  proof (cases "c = CHR 0x22")
    case True
    with 2 show ?thesis by simp
  next
    case q: False
    show ?thesis
    proof (cases "c = CHR 0x5C")
      case True
      with q 2 show ?thesis
        by (fastforce split: if_splits option.splits prod.splits)
    next
      case False
      with q 2 show ?thesis
        by (fastforce split: if_splits)
    qed
  qed
qed

lemma exponent_part_length: "exponent_part s = (eneg, ep, r) \<Longrightarrow> length r \<le> length s"
proof -
  have le: "length (dropWhile is_digit t) \<le> length t" for t
    by (rule length_dropWhile)
  assume "exponent_part s = (eneg, ep, r)"
  then show ?thesis
    using le [of "tl s"] le [of "tl (tl s)"]
    by (auto simp: exponent_part_def Let_def split: list.splits if_splits prod.splits)
qed

lemma takeWhile_dropWhile_length:
  "takeWhile P xs \<noteq> [] \<Longrightarrow> length (dropWhile P xs) < length xs"
  by (cases xs) (auto simp: less_Suc_eq_le length_dropWhile split: if_splits)

lemma minus_sign_length: "minus_sign s = (neg, s1) \<Longrightarrow> length s1 \<le> length s"
  by (auto simp: minus_sign_def split: list.splits if_splits)

lemma json_fraction_length: "json_fraction s = Some (fp, r) \<Longrightarrow> length r \<le> length s"
  using length_dropWhile [of is_digit "tl s"]
  by (auto simp: json_fraction_def split: list.splits if_splits)

lemma json_number_progress:
  assumes "json_number s = Some (v, r)"
  shows "length r < length s"
proof -
  obtain neg s1 where m: "minus_sign s = (neg, s1)" by (cases "minus_sign s")
  from assms m have ip: "takeWhile is_digit s1 \<noteq> []"
    by (auto simp: json_number_def Let_def split: if_splits)
  from assms m ip obtain fp s3 where f: "json_fraction (dropWhile is_digit s1) = Some (fp, s3)"
    by (cases "json_fraction (dropWhile is_digit s1)")
       (auto simp: json_number_def Let_def split: if_splits)
  obtain eneg ep s4 where e: "exponent_part s3 = (eneg, ep, s4)"
    by (cases "exponent_part s3")
  from assms m ip f e have "r = s4"
    by (auto simp: json_number_def Let_def split: if_splits)
  with exponent_part_length [OF e] json_fraction_length [OF f]
    takeWhile_dropWhile_length [OF ip] minus_sign_length [OF m]
  show ?thesis by simp
qed

lemma json_progress:
  "(json_value n s = Parsed v r \<longrightarrow> length r < length s) \<and>
   (json_elements n s acc = Parsed v r \<longrightarrow> length r < length s) \<and>
   (json_members n s macc = Parsed v r \<longrightarrow> length r < length s)"
proof (induction n arbitrary: s acc macc v r)
  case 0
  then show ?case by simp
next
  case (Suc n)
  have ws: "length (dropWhile is_json_ws t) \<le> length t" for t
    by (rule length_dropWhile)
  have val: "json_value n t = Parsed w u \<Longrightarrow> length u < length t" for t w u
    using Suc by blast
  have els: "json_elements n t a = Parsed w u \<Longrightarrow> length u < length t" for t a w u
    using Suc by blast
  have mems: "json_members n t a = Parsed w u \<Longrightarrow> length u < length t" for t a w u
    using Suc by blast
  have c1: "json_value (Suc n) s = Parsed v r \<longrightarrow> length r < length s"
  proof
    assume a: "json_value (Suc n) s = Parsed v r"
    then obtain c t where ct: "dropWhile is_json_ws s = c # t"
      by (cases "dropWhile is_json_ws s") auto
    have lt: "length t < length s" using ws [of s] ct by simp
    from a ct show "length r < length s"
      using lt ws [of t] json_chars_progress [of t "[]"] json_number_progress [of "c # t"]
      by (auto split: if_splits list.splits option.splits prod.splits
               dest!: els mems)
  qed
  have c2: "json_elements (Suc n) s acc = Parsed v r \<longrightarrow> length r < length s"
  proof
    assume a: "json_elements (Suc n) s acc = Parsed v r"
    then obtain w u where wu: "json_value n s = Parsed w u"
      by (cases "json_value n s") auto
    from val [OF wu] ws [of u] a wu show "length r < length s"
      by (auto split: list.splits if_splits dest!: els)
  qed
  have c3: "json_members (Suc n) s macc = Parsed v r \<longrightarrow> length r < length s"
  proof
    assume a: "json_members (Suc n) s macc = Parsed v r"
    then obtain r0 where r0: "dropWhile is_json_ws s = CHR 0x22 # r0"
      by (cases "dropWhile is_json_ws s") (auto split: if_splits)
    from a r0 obtain key r1 where k: "json_chars r0 [] = Some (key, r1)"
      by (cases "json_chars r0 []") auto
    from a r0 k obtain r2 where r2: "dropWhile is_json_ws r1 = CHR '':'' # r2"
      by (cases "dropWhile is_json_ws r1") (auto split: if_splits)
    from a r0 k r2 obtain w r3 where w: "json_value n r2 = Parsed w r3"
      by (cases "json_value n r2") auto
    have "length r3 < length s"
      using val [OF w] ws [of r1] r2 json_chars_progress [OF k] ws [of s] r0 by simp
    with a r0 k r2 w ws [of r3] show "length r < length s"
      by (auto split: list.splits if_splits dest!: mems)
  qed
  from c1 c2 c3 show ?case by blast
qed

lemma json_fuel_enough:
  "(2 * length s + 2 \<le> n \<longrightarrow> json_value n s \<noteq> OutOfFuel) \<and>
   (2 * length s + 3 \<le> n \<longrightarrow> json_elements n s acc \<noteq> OutOfFuel) \<and>
   (2 * length s + 3 \<le> n \<longrightarrow> json_members n s macc \<noteq> OutOfFuel)"
  supply dropWhile_eq_Nil_conv [simp del]
proof (induction n arbitrary: s acc macc)
  case 0
  then show ?case by simp
next
  case (Suc n)
  have ws: "length (dropWhile is_json_ws t) \<le> length t" for t
    by (rule length_dropWhile)
  have val: "2 * length t + 2 \<le> n \<Longrightarrow> json_value n t \<noteq> OutOfFuel" for t
    using Suc by blast
  have els: "2 * length t + 3 \<le> n \<Longrightarrow> json_elements n t a \<noteq> OutOfFuel" for t a
    using Suc by blast
  have mems: "2 * length t + 3 \<le> n \<Longrightarrow> json_members n t a \<noteq> OutOfFuel" for t a
    using Suc by blast
  have prog: "json_value n t = Parsed w u \<Longrightarrow> length u < length t" for t w u
    using json_progress by blast
  have c1: "2 * length s + 2 \<le> Suc n \<longrightarrow> json_value (Suc n) s \<noteq> OutOfFuel"
  proof
    assume n: "2 * length s + 2 \<le> Suc n"
    show "json_value (Suc n) s \<noteq> OutOfFuel"
    proof (cases "dropWhile is_json_ws s")
      case Nil
      then show ?thesis by simp
    next
      case (Cons c t)
      have lt: "length t < length s" using ws [of s] Cons by simp
      show ?thesis
      proof (cases "dropWhile is_json_ws t")
        case Nil
        with Cons show ?thesis
          by (simp split: option.split prod.split)
      next
        case d: (Cons d t')
        have "length (d # t') \<le> length t" using ws [of t] d by simp
        with lt n have "2 * length (d # t') + 3 \<le> n" by simp
        from els [OF this, of "[]"] mems [OF this, of "[]"] Cons d show ?thesis
          by (auto split: option.split prod.split)
      qed
    qed
  qed
  have c2: "2 * length s + 3 \<le> Suc n \<longrightarrow> json_elements (Suc n) s acc \<noteq> OutOfFuel"
  proof
    assume n: "2 * length s + 3 \<le> Suc n"
    then have "2 * length s + 2 \<le> n" by simp
    from val [OF this] show "json_elements (Suc n) s acc \<noteq> OutOfFuel"
    proof (cases "json_value n s")
      case (Parsed w u)
      have u: "length u < length s" using prog [OF Parsed] .
      show ?thesis
      proof (cases "dropWhile is_json_ws u")
        case Nil
        with Parsed show ?thesis by simp
      next
        case (Cons c r')
        have "length r' < length u" using ws [of u] Cons by simp
        with u n have "2 * length r' + 3 \<le> n" by simp
        from els [OF this, of "acc @ [w]"] Parsed Cons show ?thesis by simp
      qed
    qed simp_all
  qed
  have c3: "2 * length s + 3 \<le> Suc n \<longrightarrow> json_members (Suc n) s macc \<noteq> OutOfFuel"
  proof
    assume n: "2 * length s + 3 \<le> Suc n"
    show "json_members (Suc n) s macc \<noteq> OutOfFuel"
    proof (cases "dropWhile is_json_ws s")
      case Nil
      then show ?thesis by simp
    next
      case (Cons q r0)
      have r0: "length r0 < length s" using ws [of s] Cons by simp
      show ?thesis
      proof (cases "q = CHR 0x22 \<and> json_chars r0 [] \<noteq> None")
        case False
        with Cons show ?thesis by (cases "json_chars r0 []") auto
      next
        case True
        then obtain key r1 where k: "json_chars r0 [] = Some (key, r1)" by auto
        have r1: "length r1 < length r0" using json_chars_progress [OF k] .
        show ?thesis
        proof (cases "dropWhile is_json_ws r1")
          case Nil
          with Cons True k show ?thesis by simp
        next
          case c: (Cons c r2)
          have r2: "length r2 < length r1" using ws [of r1] c by simp
          with r1 r0 n have "2 * length r2 + 2 \<le> n" by simp
          note v = val [OF this]
          show ?thesis
          proof (cases "json_value n r2")
            case (Parsed w r3)
            have r3: "length r3 < length r2" using prog [OF Parsed] .
            show ?thesis
            proof (cases "dropWhile is_json_ws r3")
              case Nil
              with Cons True k c Parsed show ?thesis by simp
            next
              case e: (Cons e r4)
              have "length r4 < length r3" using ws [of r3] e by simp
              with r3 r2 r1 r0 n have "2 * length r4 + 3 \<le> n" by simp
              from mems [OF this, of "AList.update key w macc"] Cons True k c Parsed e
              show ?thesis by simp
            qed
          next
            case SyntaxErr
            with Cons True k c show ?thesis by simp
          next
            case OutOfFuel
            with v show ?thesis by simp
          qed
        qed
      qed
    qed
  qed
  from c1 c2 c3 show ?case by blast
qed

lemma ecma_JSON_parse_fuel: "json_value (2 * length s + 2) s \<noteq> OutOfFuel"
  using json_fuel_enough [of s "2 * length s + 2"] by simp

section \<open>Properties of parseISODate\<close>

lemma iso_regex_empty: "rx_exec iso_regex [] = None"
  by code_simp

lemma parseISODate_normalize:
  "parseISODate P s =
     (case iso_normalize s of
        None \<Rightarrow> Null
      | Some f \<Rightarrow> (case Date_of_string P f of None \<Rightarrow> Null | Some t \<Rightarrow> DateObj t))"
  by (auto simp: parseISODate_def iso_normalize_def rx_test_def isValidDate_def Let_def
                 iso_regex_empty
           split: option.splits prod.splits)










section \<open>Properties of convertString\<close>

lemma ecma_parseFloat_42: "parseFloat ecma ''42'' = Finite 42"
  unfolding ecma_def by code_simp

lemma ecma_parseFloat_abc: "parseFloat ecma ''abc'' = NaN"
  unfolding ecma_def by code_simp

lemma iso_normalize_42: "iso_normalize ''42'' = None"
  by code_simp

text \<open>
  C1. The two examples of the claim, on every platform and, for
  \<open>[Number, String]\<close>, for every string. With the candidates
  \<open>[Date, String]\<close> the string \<open>42\<close> falls through to the string \<open>42\<close>, as the
  claim says. With the candidates \<open>[Number, String]\<close> the result is the string
  \<open>42\<close> too, not the number 42 that the first candidate produced (and that
  \<open>[Number]\<close> alone returns): the number 42 is a primitive, \<open>42 instanceof Number\<close>
  is false, and the loop goes on to \<open>String\<close>.
\<close>

theorem convertString_42_number_string:
  "convertString P (Str ''42'') (Arr [Number_ctor, String_ctor]) = Inr (Str ''42'') \<and>
   convertString P (Str s) (Arr [Number_ctor, String_ctor]) = Inr (Str s) \<and>
   convertString ecma (Str ''42'') (Arr [Number_ctor]) = Inr (Num (Finite 42)) \<and>
   convertString P (Str ''42'') (Arr [Date_ctor now, String_ctor]) = Inr (Str ''42'')"
  by (simp add: convertString_def convert_case_def instanceof_def has_instance_def
                Number_ctor_def String_ctor_def Date_ctor_def ecma_parseFloat_42
                parseISODate_normalize iso_normalize_42)

text \<open>
  C3. A \<open>Number\<close> candidate never ends the search: whatever the string
  parses to, the loop goes on to the candidates after it, with the parsed
  number as the output so far. The string \<open>abc\<close> parses to \<open>NaN\<close>, and \<open>NaN\<close> is
  what \<open>[Number]\<close> alone returns; but with the candidates \<open>[Number, String]\<close>
  \<open>NaN instanceof Number\<close> is false, the \<open>String\<close> candidate is reached and the
  string \<open>abc\<close> is returned.
\<close>

theorem convertString_NaN_number_string:
  "convertString P (Str s) (Arr (Number_ctor # t # ts))
     = convert_loop P s (t # ts) (Num (parseFloat P s)) \<and>
   parseFloat ecma ''abc'' = NaN \<and>
   convertString ecma (Str ''abc'') (Arr [Number_ctor]) = Inr (Num NaN) \<and>
   convertString ecma (Str ''abc'') (Arr [Number_ctor, String_ctor]) = Inr (Str ''abc'')"
  by (simp add: convertString_def convert_case_def instanceof_def has_instance_def
                Number_ctor_def String_ctor_def ecma_parseFloat_abc)

lemma convertString_not_string:
  "\<not> is_string str \<Longrightarrow> convertString P str requestedTypes = Inr Null"
  by (cases str) (simp_all add: convertString_def is_string_def)

lemma convertString_no_types:
  "\<forall>t ts. requestedTypes \<noteq> Arr (t # ts) \<Longrightarrow> convertString P str requestedTypes = Inr Null"
  by (auto simp: convertString_def split: jsval.splits list.splits)

section \<open>Properties of parseVueProps\<close>

lemma map_of_foldl_update:
  "map_of (foldl (\<lambda>out kv. AList.update (fst kv) (snd kv) out) acc kvs) =
   map_of acc ++ map_of (rev kvs)"
proof (induction kvs arbitrary: acc)
  case Nil
  then show ?case by simp
next
  case (Cons kv kvs)
  show ?case
    by (cases kv)
       (simp add: Cons.IH update_conv' map_add_upd_left fun_eq_iff map_add_def
             split: option.splits)
qed

lemma map_of_Object_fromEntries:
  assumes d: "distinct (map fst kvs)"
  shows "map_of (Object_fromEntries kvs) = map_of kvs"
proof -
  from d have "distinct (map fst (rev kvs))"
    by (simp add: rev_map [symmetric])
  with d have "map_of (rev kvs) = map_of kvs"
    by (subst map_of_inject_set) simp_all
  then show ?thesis by (simp add: Object_fromEntries_def map_of_foldl_update)
qed


lemma parse_props_keys:
  "parse_props P props defs = Inr rs \<Longrightarrow>
   map fst rs = filter (\<lambda>k. truthy (get_prop props k)) (map fst defs)"
proof (induction defs arbitrary: rs)
  case Nil
  then show ?case by simp
next
  case (Cons d defs)
  then show ?case
    by (cases d) (auto simp: parse_prop_def split: sum.splits option.splits if_splits)
qed

lemma parse_props_value:
  "parse_props P props defs = Inr rs \<Longrightarrow> (key, propDef) \<in> set defs \<Longrightarrow>
   truthy (get_prop props key) \<Longrightarrow>
   \<exists>v. convertString P (get_prop props key) (requested_types propDef) = Inr v \<and>
       (key, v) \<in> set rs"
proof (induction defs arbitrary: rs)
  case Nil
  then show ?case by simp
next
  case (Cons d defs)
  then show ?case
    by (cases d) (auto simp: parse_prop_def split: sum.splits option.splits if_splits)
qed

lemma parseVueProps_undeclared:
  assumes "distinct (map fst defs)" "(key, propDef) \<in> set defs"
    "requested_types propDef = Undefined" "truthy (get_prop props key)"
    "parseVueProps P (Obj defs) props = Inr out"
  shows "\<exists>entries. out = Obj entries \<and> map_of entries key = Some Null"
proof -
  from assms(5) obtain rs where rs: "parse_props P props defs = Inr rs"
    and out: "out = Obj (Object_fromEntries rs)"
    by (auto simp: parseVueProps_def Object_entries_def split: sum.splits)
  from parse_props_value [OF rs assms(2) assms(4)] obtain v
    where v: "convertString P (get_prop props key) (requested_types propDef) = Inr v"
      and mem: "(key, v) \<in> set rs" by blast
  have "v = Null" using v assms(3) by (simp add: convertString_no_types)
  moreover have d: "distinct (map fst rs)"
    using parse_props_keys [OF rs] assms(1) by simp
  ultimately have "map_of rs key = Some Null" using mem by simp
  with d out show ?thesis by (simp add: map_of_Object_fromEntries)
qed

text \<open>
  C10. \<open>convertString\<close> returns \<open>null\<close> for every input that is not a string and
  for every candidate-type argument that is not a non-empty array, whatever
  the platform functions are. So in \<open>parseVueProps\<close> a declared parameter whose
  declaration normalises to no list of type tags, and whose raw attribute is
  present, is mapped to \<open>null\<close> in the result.
\<close>

theorem convertString_guard_null:
  "(\<not> is_string str \<longrightarrow> convertString P str requestedTypes = Inr Null) \<and>
   ((\<forall>t ts. requestedTypes \<noteq> Arr (t # ts)) \<longrightarrow> convertString P str requestedTypes = Inr Null) \<and>
   (distinct (map fst defs) \<and> (key, propDef) \<in> set defs \<and>
    requested_types propDef = Undefined \<and> truthy (get_prop props key) \<and>
    parseVueProps P (Obj defs) props = Inr out
    \<longrightarrow> (\<exists>entries. out = Obj entries \<and> map_of entries key = Some Null))"
  using convertString_not_string [of str P requestedTypes]
    convertString_no_types [of requestedTypes P str]
    parseVueProps_undeclared [of defs key propDef props P out]
  by blast

theorem convertString_guard_null_witness:
  "\<not> is_string (Num (Finite 5)) \<and>
   convertString ecma (Num (Finite 5)) (Arr [Number_ctor]) = Inr Null \<and>
   convertString ecma (Str ''5'') (Arr []) = Inr Null \<and>
   requested_types (Str ''text'') = Undefined \<and>
   parseVueProps ecma (Obj [(''title'', Str ''text'')]) (Obj [(''title'', Str ''Hello'')])
     = Inr (Obj [(''title'', Null)]) \<and>
   map_of [(''title'', Null)] ''title'' = Some Null"
proof -
  have h1: "\<not> is_string (Num (Finite 5))" by (simp add: is_string_def)
  have r1: "convertString ecma (Num (Finite 5)) (Arr [Number_ctor]) = Inr Null"
    using convertString_guard_null
            [where str = "Num (Finite 5)" and P = ecma and requestedTypes = "Arr [Number_ctor]"]
          h1
    by blast
  have r2: "convertString ecma (Str ''5'') (Arr []) = Inr Null"
    using convertString_guard_null
            [where str = "Str ''5''" and P = ecma and requestedTypes = "Arr []"]
    by blast
  have h3: "requested_types (Str ''text'') = Undefined"
    by (simp add: requested_types_def is_function_def is_array_def is_object_def)
  have h4: "parseVueProps ecma (Obj [(''title'', Str ''text'')]) (Obj [(''title'', Str ''Hello'')])
              = Inr (Obj [(''title'', Null)])"
    by code_simp
  have h5: "truthy (get_prop (Obj [(''title'', Str ''Hello'')]) ''title'')"
    by (simp add: truthy_def get_prop_def)
  have r3: "\<exists>entries. Obj [(''title'', Null)] = Obj entries \<and> map_of entries ''title'' = Some Null"
    using convertString_guard_null
            [where defs = "[(''title'', Str ''text'')]" and key = "''title''"
               and propDef = "Str ''text''" and props = "Obj [(''title'', Str ''Hello'')]"
               and P = ecma and out = "Obj [(''title'', Null)]"]
          h3 h4 h5
    by simp
  from h1 r1 r2 h3 h4 r3 show ?thesis by simp
qed







section \<open>Properties of loadDynamicImport\<close>

lemma await_concrete: "\<forall>s. v \<noteq> Prom s \<Longrightarrow> await v = Resolved v"
  by (cases v) simp_all

text \<open>
  C8. A value that is not a function, not a promise and has no \<open>default\<close>
  member resolves, without a callback, to itself: the promise is fulfilled
  with that same value, nothing is logged and no function is invoked.
\<close>

theorem loadDynamicImport_concrete:
  assumes "\<not> is_function v" and "\<forall>s. v \<noteq> Prom s"
    and "\<forall>kvs. v = Obj kvs \<longrightarrow> map_of kvs ''default'' = None"
  shows "loadDynamicImport v None = \<lparr>settled = Resolved v, console_errors = [], invocations = 0\<rparr>"
proof -
  from assms(1) have plain: "\<not> is_plain_function v"
    by (cases v) (simp_all add: is_plain_function_def is_function_def)
  from assms(3) have nodef: "\<not> has_default v"
    by (cases v) (simp_all add: has_default_def)
  from plain nodef assms(2) show ?thesis
    by (simp add: loadDynamicImport_def try_block_def after_first_await_def second_await_def
                  apply_cb_def return_result_def await_concrete)
qed

theorem loadDynamicImport_concrete_witness:
  "loadDynamicImport (Obj [(''name'', Str ''Countdown'')]) None
     = \<lparr>settled = Resolved (Obj [(''name'', Str ''Countdown'')]), console_errors = [],
        invocations = 0\<rparr>"
proof -
  have h1: "\<not> is_function (Obj [(''name'', Str ''Countdown'')])"
    by (simp add: is_function_def)
  have h2: "\<forall>s. Obj [(''name'', Str ''Countdown'')] \<noteq> Prom s" by simp
  have h3: "\<forall>kvs. Obj [(''name'', Str ''Countdown'')] = Obj kvs \<longrightarrow> map_of kvs ''default'' = None"
    by auto
  from loadDynamicImport_concrete [OF h1 h2 h3] show ?thesis .
qed

text \<open>
  C2. An initiator that is a factory throwing when invoked: the first
  invocation stands before the \<open>try\<close> block, so the error is neither caught nor
  logged and the promise of \<open>loadDynamicImport\<close> is rejected with it, whatever
  the callback. In a scan of two markers, the first a plain component and the
  second such a factory, \<open>Promise.all\<close> is rejected as well and the application
  records no instance. The same factory behind a \<open>default\<close> member is invoked
  inside the \<open>try\<close> block: there the error is caught and logged.
\<close>

theorem loadDynamicImport_factory_throws:
  "loadDynamicImport (Fn None False (Throws (Str ''boom''))) cb
     = \<lparr>settled = Failed (Thrown (Str ''boom'')), console_errors = [], invocations = 1\<rparr> \<and>
   initVueComponents ecma
       \<lparr>dependencies_vueComponents =
          [(''Good'', Obj [(''name'', Str ''Good'')]),
           (''Bad'', Fn None False (Throws (Str ''boom'')))],
        vueComponents = None\<rparr>
       (Some [\<lparr>el_id = ''e1'', dataset = [(''vueComponent'', ''Good'')]\<rparr>,
              \<lparr>el_id = ''e2'', dataset = [(''vueComponent'', ''Bad'')]\<rparr>])
     = (\<lparr>dependencies_vueComponents =
           [(''Good'', Obj [(''name'', Str ''Good'')]),
            (''Bad'', Fn None False (Throws (Str ''boom'')))],
         vueComponents = None\<rparr>,
        \<lparr>settled = Failed (Thrown (Str ''boom'')), console_errors = [], invocations = 1\<rparr>) \<and>
   loadDynamicImport (Obj [(''default'', Fn None False (Throws (Str ''boom'')))]) None
     = \<lparr>settled = Resolved (Fn None False (Throws (Str ''boom''))),
        console_errors = [Thrown (Str ''boom'')], invocations = 1\<rparr>"
proof -
  have a: "loadDynamicImport (Fn None False (Throws (Str ''boom''))) cb
     = \<lparr>settled = Failed (Thrown (Str ''boom'')), console_errors = [], invocations = 1\<rparr>"
    by (simp add: loadDynamicImport_def is_plain_function_def call0_def)
  have b: "initVueComponents ecma
       \<lparr>dependencies_vueComponents =
          [(''Good'', Obj [(''name'', Str ''Good'')]),
           (''Bad'', Fn None False (Throws (Str ''boom'')))],
        vueComponents = None\<rparr>
       (Some [\<lparr>el_id = ''e1'', dataset = [(''vueComponent'', ''Good'')]\<rparr>,
              \<lparr>el_id = ''e2'', dataset = [(''vueComponent'', ''Bad'')]\<rparr>])
     = (\<lparr>dependencies_vueComponents =
           [(''Good'', Obj [(''name'', Str ''Good'')]),
            (''Bad'', Fn None False (Throws (Str ''boom'')))],
         vueComponents = None\<rparr>,
        \<lparr>settled = Failed (Thrown (Str ''boom'')), console_errors = [], invocations = 1\<rparr>)"
    by code_simp
  have c: "loadDynamicImport (Obj [(''default'', Fn None False (Throws (Str ''boom'')))]) None
     = \<lparr>settled = Resolved (Fn None False (Throws (Str ''boom''))),
        console_errors = [Thrown (Str ''boom'')], invocations = 1\<rparr>"
    by code_simp
  from a b c show ?thesis by blast
qed

section \<open>Properties of initVueComponents\<close>











section \<open>Properties of getDataset\<close>

lemma compile_literal:
  "\<forall>c \<in> set p. \<not> is_syntax_char c \<Longrightarrow> RegExp_compile p = Inr (literal_rx p)"
  by (induction p) (auto simp: is_syntax_char_def)

lemma compile_anchored:
  "\<forall>c \<in> set p. \<not> is_syntax_char c \<Longrightarrow> RegExp_compile (CHR ''^'' # p) = Inr (Seq Bol (literal_rx p))"
  by (simp add: compile_literal)

lemma step_literal:
  "rx_step (literal_rx p) (n, rest, caps) =
     (if take (length p) rest = p then [(n + length p, drop (length p) rest, caps)] else [])"
proof (induction p arbitrary: n rest)
  case Nil
  then show ?case by simp
next
  case (Cons c cs)
  show ?case
    by (cases rest) (auto simp: Cons.IH)
qed

lemma exec_from_anchored: "0 < i \<Longrightarrow> rx_exec_from (Seq Bol r) s i n = None"
  by (induction n arbitrary: i) simp_all

lemma exec_anchored_literal:
  "rx_exec (Seq Bol (literal_rx p)) s =
     (if take (length p) s = p then Some (0, (length p, drop (length p) s, Map.empty)) else None)"
  by (simp add: rx_exec_def step_literal exec_from_anchored)

lemma strip_literal_prefix:
  assumes "p \<noteq> []" "\<forall>c \<in> set p. \<not> is_syntax_char c"
  shows "strip_prefix (Some p) key =
           Inr (if take (length p) key = p then (True, lower_first (drop (length p) key))
                else (False, key))"
  using assms
  by (simp add: strip_prefix_def compile_literal rx_test_def rx_replace_empty_def
                exec_anchored_literal)

lemma lower_first_Nil: "lower_first k = [] \<longleftrightarrow> k = []"
  by (cases k) (simp_all add: lower_first_def)

lemma getDataset_loop_literal:
  assumes "p \<noteq> []" "\<forall>c \<in> set p. \<not> is_syntax_char c"
  shows "getDataset_loop P (Some p) entries out =
           Inr (foldl (\<lambda>out kv. AList.update (fst kv) (snd kv) out) out (kept_entries P p entries))"
proof (induction entries arbitrary: out)
  case Nil
  then show ?case by (simp add: kept_entries_def)
next
  case (Cons e entries)
  obtain k v where e: "e = (k, v)" by (cases e)
  have len: "take (length p) k = p \<Longrightarrow> (drop (length p) k \<noteq> []) = (length p < length k)"
    by auto
  show ?case
    using len
    by (auto simp: e strip_literal_prefix [OF assms] Cons.IH kept_entries_def decode_def
                   lower_first_Nil)
qed

text \<open>For a prefix without syntax characters the code does what its
  documentation says: the result is the object built from the kept entries.\<close>

lemma getDataset_literal_prefix:
  assumes "p \<noteq> []" "\<forall>c \<in> set p. \<not> is_syntax_char c"
  shows "getDataset P obj (Some p) = Inr (Object_fromEntries (kept_entries P p (dataset_of obj)))"
  by (simp add: getDataset_def getDataset_loop_literal [OF assms] Object_fromEntries_def)

text \<open>
  C5. The example of the claim holds: with the prefix \<open>vue\<close>, the attributes
  \<open>vueTitle\<close> and \<open>other\<close> give exactly \<open>title\<close>, with the raw string \<open>Hello\<close>, which
  is no JSON text. But the prefix is spliced into a regular expression as it
  is: with the prefix \<open>.\<close> no key of the same attributes starts with the prefix,
  yet both are kept, each without its first character.
\<close>

theorem getDataset_prefix_as_pattern:
  "getDataset ecma (PlainObject [(''vueTitle'', ''Hello''), (''other'', ''x'')]) (Some ''vue'')
     = Inr [(''title'', Str ''Hello'')] \<and>
   getDataset ecma (PlainObject [(''vueTitle'', ''Hello''), (''other'', ''x'')]) (Some ''.'')
     = Inr [(''ueTitle'', Str ''Hello''), (''ther'', Str ''x'')]"
  by code_simp

section \<open>Properties of loadJSFile and loadCssFile\<close>













end
